theory Spec2Isabelle
  imports Complex_Main "HOL-Library.Word"
begin

section \<open>Data model of the VDA 5050 connector\<close>

text \<open>
  The wrapper class \<open>State\<close> of \<open>include/models/State.h\<close> owns one
  \<open>vda5050_msgs::State\<close> message and mutates it in place. The message types are ROS
  messages; the records below carry the fields that \<open>State.h\<close> and \<open>Order.h\<close>
  read or write. Fields of different message types that share a name in the source
  (\<open>sequenceId\<close>, \<open>released\<close>, \<open>actionId\<close>, ...) get a prefix naming the message type:
  \<open>ns_\<close> for NodeState, \<open>es_\<close> for EdgeState, \<open>as_\<close> for ActionState, \<open>er_\<close> for Error,
  \<open>iz_\<close> for InteractionZoneState, \<open>a_\<close>, \<open>n_\<close>, \<open>e_\<close>, \<open>o_\<close> for Action, Node, Edge and
  Order. The fields of the State message itself keep their names.
\<close>

subsection \<open>Scalars\<close>

text \<open>
  A C++ \<open>double\<close>, as far as the setters look at it: a finite value, one of the two
  infinities, or a NaN. Only the comparison \<open>\<le>\<close> and the conversion from \<open>bool\<close> are
  used by the code, so no rounding is modelled.
\<close>

datatype cdouble = Finite real | PlusInf | MinusInf | NaN

text \<open>IEEE comparison \<open>a <= b\<close>: false as soon as one side is a NaN.\<close>

fun le_double :: "cdouble \<Rightarrow> cdouble \<Rightarrow> bool" where
  "le_double NaN _ = False"
| "le_double _ NaN = False"
| "le_double MinusInf _ = True"
| "le_double _ PlusInf = True"
| "le_double (Finite a) (Finite b) = (a \<le> b)"
| "le_double (Finite _) MinusInf = False"
| "le_double PlusInf _ = False"

text \<open>The usual arithmetic conversion of a \<open>bool\<close> operand to \<open>double\<close>.\<close>

definition bool_to_double :: "bool \<Rightarrow> cdouble" where
  "bool_to_double b = (if b then Finite 1 else Finite 0)"

type_synonym uint32 = "32 word"

subsection \<open>Messages\<close>

record ActionState =
  as_actionId :: string
  as_actionType :: string
  as_actionDescription :: string
  as_actionStatus :: string
  as_resultDescription :: string

record NodeState =
  ns_nodeId :: string
  ns_sequenceId :: uint32
  ns_released :: bool

record EdgeState =
  es_edgeId :: string
  es_sequenceId :: uint32
  es_released :: bool

record Error =
  er_errorType :: string
  er_errorDescription :: string
  er_errorLevel :: string

record InteractionZoneState =
  iz_zoneId :: string
  iz_zoneStatus :: int

record BatteryState =
  batteryCharge :: cdouble
  batteryVoltage :: cdouble
  charging :: bool

record AGVPosition =
  agv_x :: cdouble
  agv_y :: cdouble
  agv_theta :: cdouble
  localizationScore :: cdouble
  positionInitialized :: bool
  mapId :: string

text \<open>\<open>vda5050_msgs::State\<close>, the private member \<open>state\<close> of the class.\<close>

record State =
  headerId :: int
  timestamp :: string
  manufacturer :: string
  version :: string
  serialNumber :: string
  zoneSetId :: string
  orderId :: string
  orderUpdateId :: uint32
  lastNodeId :: string
  lastNodeSequenceId :: uint32
  nodeStates :: "NodeState list"
  edgeStates :: "EdgeState list"
  actionStates :: "ActionState list"
  errors :: "Error list"
  batteryState :: BatteryState
  operatingMode :: string
  driving :: bool
  agvPosition :: AGVPosition
  paused :: bool
  newBaseRequest :: bool
  distanceSinceLastNode :: cdouble

text \<open>
  What \<open>ROS_ERROR_STREAM\<close> writes: the methods return \<open>void\<close> and report an
  inconsistency only on the error log, so the model returns the lines logged by a call
  next to the state after it.
\<close>

datatype log_event =
    OrderIdMismatch string string
  | LastNodeNotFound
  | LastEdgeNotFound
  | ActionStateNotFound string

text \<open>A default-constructed message: numbers zero, strings and arrays empty.\<close>

definition default_msg :: State where
  "default_msg = \<lparr> headerId = 0, timestamp = [], manufacturer = [], version = [],
     serialNumber = [], zoneSetId = [], orderId = [], orderUpdateId = 0,
     lastNodeId = [], lastNodeSequenceId = 0, nodeStates = [], edgeStates = [],
     actionStates = [], errors = [],
     batteryState = \<lparr> batteryCharge = Finite 0, batteryVoltage = Finite 0, charging = False \<rparr>,
     operatingMode = [], driving = False,
     agvPosition = \<lparr> agv_x = Finite 0, agv_y = Finite 0, agv_theta = Finite 0,
       localizationScore = Finite 0, positionInitialized = False, mapId = [] \<rparr>,
     paused = False, newBaseRequest = False, distanceSinceLastNode = Finite 0 \<rparr>"

subsection \<open>Orders\<close>

text \<open>
  \<open>vda5050_msgs::Order\<close>, the private member \<open>order\<close> of the class \<open>Order\<close>
  (\<open>include/models/Order.h\<close>); the getters of \<open>Order.h\<close> read \<open>orderId\<close>,
  \<open>orderUpdateId\<close> (a \<open>uint32_t\<close>), \<open>zoneSetId\<close>, \<open>nodes\<close> and \<open>edges\<close>.
\<close>

record Action =
  a_actionId :: string
  a_actionType :: string
  a_actionDescription :: string

record Node =
  n_nodeId :: string
  n_sequenceId :: uint32
  n_released :: bool
  n_actions :: "Action list"

record Edge =
  e_edgeId :: string
  e_sequenceId :: uint32
  e_released :: bool
  e_startNodeId :: string
  e_endNodeId :: string
  e_actions :: "Action list"

record Order =
  o_orderId :: string
  o_orderUpdateId :: uint32
  o_zoneSetId :: string
  o_nodes :: "Node list"
  o_edges :: "Edge list"

text \<open>
  The error kinds the specification names for orders and order updates. A method that
  can reject its argument is modelled as returning the error, if any, next to the
  object after the call.
\<close>

datatype order_error = StructuralError | ContinuityError | StaleUpdateError

section \<open>Operations of \<open>State.h\<close>\<close>

subsection \<open>\<open>std::find_if\<close>\<close>

text \<open>
  The iterator returned by \<open>find_if(v.begin(), v.end(), p)\<close>, as its distance from
  \<open>v.begin()\<close>: the position of the first element satisfying \<open>p\<close>, and \<open>length v\<close>
  (that is \<open>v.end()\<close>) when there is none.
\<close>

primrec find_if :: "('a \<Rightarrow> bool) \<Rightarrow> 'a list \<Rightarrow> nat" where
  "find_if p [] = 0"
| "find_if p (v # vs) = (if p v then 0 else Suc (find_if p vs))"

subsection \<open>\<open>SetActionState\<close>\<close>

text \<open>The overload taking an \<open>ActionState\<close> message (State.h, lines 479 to 489).\<close>

definition SetActionState :: "ActionState \<Rightarrow> State \<Rightarrow> log_event list \<times> State" where
  "SetActionState updated_as s =
     (let it = find_if (\<lambda>a. as_actionId updated_as = as_actionId a) (actionStates s) in
      if it \<noteq> length (actionStates s) then
        ([], s\<lparr>actionStates := (actionStates s)[it := (actionStates s ! it)
              \<lparr>as_actionStatus := as_actionStatus updated_as,
               as_resultDescription := as_resultDescription updated_as\<rparr>]\<rparr>)
      else ([ActionStateNotFound (as_actionId updated_as)], s))"

text \<open>The overload taking three strings (State.h, lines 495 to 505).\<close>

definition SetActionStateById :: "string \<Rightarrow> string \<Rightarrow> string \<Rightarrow> State \<Rightarrow> log_event list \<times> State" where
  "SetActionStateById action_id action_status result_description s =
     (let it = find_if (\<lambda>a. action_id = as_actionId a) (actionStates s) in
      if it \<noteq> length (actionStates s) then
        ([], s\<lparr>actionStates := (actionStates s)[it := (actionStates s ! it)
              \<lparr>as_actionStatus := action_status,
               as_resultDescription := result_description\<rparr>]\<rparr>)
      else ([ActionStateNotFound action_id], s))"

subsection \<open>Range-checked setters\<close>

text \<open>
  \<open>SetBatteryCharge\<close> (State.h, lines 228 to 234). The guard is written
  \<open>0.0 <= battery_charge <= 100.0\<close>, which C++ parses as
  \<open>(0.0 <= battery_charge) <= 100.0\<close>: the \<open>bool\<close> of the first comparison is
  converted to \<open>double\<close> and compared with the upper bound. The model returns the
  method's result next to the state.
\<close>

definition SetBatteryCharge :: "cdouble \<Rightarrow> State \<Rightarrow> bool \<times> State" where
  "SetBatteryCharge battery_charge s =
     (if le_double (bool_to_double (le_double (Finite 0) battery_charge)) (Finite 100) then
        (True, s\<lparr>batteryState := (batteryState s)\<lparr>batteryCharge := battery_charge\<rparr>\<rparr>)
      else (False, s))"

text \<open>\<open>SetLocalizationScore\<close> (State.h, lines 326 to 332), with the same shape of guard.\<close>

definition SetLocalizationScore :: "cdouble \<Rightarrow> State \<Rightarrow> bool \<times> State" where
  "SetLocalizationScore score s =
     (if le_double (bool_to_double (le_double (Finite 0) score)) (Finite 1) then
        (True, s\<lparr>agvPosition := (agvPosition s)\<lparr>localizationScore := score\<rparr>\<rparr>)
      else (False, s))"

subsection \<open>\<open>SetInteractionZones\<close>\<close>

record InteractionZoneStates =
  interactionZones :: "InteractionZoneState list"

text \<open>The loop over the local copy \<open>zones\<close> (State.h, lines 408 to 410).\<close>

definition force_zone_status :: "InteractionZoneStates \<Rightarrow> InteractionZoneStates" where
  "force_zone_status zones =
     zones\<lparr>interactionZones :=
       map (\<lambda>zone. if iz_zoneStatus zone \<noteq> 0 then zone\<lparr>iz_zoneStatus := 1\<rparr> else zone)
         (interactionZones zones)\<rparr>"

text \<open>
  \<open>SetInteractionZones\<close> (State.h, lines 405 to 413): the copy is made and rewritten,
  and the statement that would store it, \<open>state.interactionZones = zones.interactionZones\<close>,
  is a comment in the source. The method returns \<open>void\<close>; the model returns the state
  after the call.
\<close>

definition SetInteractionZones :: "InteractionZoneStates \<Rightarrow> State \<Rightarrow> State" where
  "SetInteractionZones interaction_zones s =
     (let zones = force_zone_status interaction_zones in s)"

subsection \<open>\<open>SetOrderState\<close>\<close>

text \<open>
  \<open>SetOrderState\<close> (State.h, lines 420 to 473) is modelled block by block. The argument
  \<open>order_state\<close> is the state reported by the vehicle, \<open>s\<close> the member \<open>state\<close>.
  \<open>state.nodeStates.begin()->sequenceId\<close> and \<open>erase(state.nodeStates.begin())\<close> are
  undefined when \<open>state.nodeStates\<close> is empty: the model returns \<open>None\<close> there, and
  otherwise the lines logged and the state after the call.
\<close>

text \<open>
  Lines 430 to 445, entered when the last node has changed. \<open>erase(begin)\<close> drops the
  head; \<open>erase(begin, it)\<close> drops the \<open>it\<close> elements before \<open>it\<close> and keeps \<open>*it\<close>. The
  search of line 437 compares with \<open>state.lastNodeSequenceId\<close>, the value before the call.
\<close>

definition remove_old_nodes :: "State \<Rightarrow> State \<Rightarrow> (log_event list \<times> State) option" where
  "remove_old_nodes order_state s =
     (case nodeStates s of
        [] \<Rightarrow> None
      | n # rest \<Rightarrow>
          if ns_sequenceId n = lastNodeSequenceId order_state then
            Some ([], s\<lparr>nodeStates := rest,
                         lastNodeId := lastNodeId order_state,
                         lastNodeSequenceId := lastNodeSequenceId order_state\<rparr>)
          else
            (let it = find_if (\<lambda>ns. ns_sequenceId ns = lastNodeSequenceId s) (nodeStates s) in
             if it \<noteq> length (nodeStates s) then
               Some ([], s\<lparr>nodeStates := drop it (nodeStates s),
                            lastNodeId := lastNodeId order_state,
                            lastNodeSequenceId := lastNodeSequenceId order_state\<rparr>)
             else Some ([LastNodeNotFound], s)))"

text \<open>
  Lines 426 to 451. The \<open>||\<close> of line 428 evaluates its second operand, which reads the
  head of \<open>state.nodeStates\<close>, only when the first is false.
\<close>

definition SetOrderState_nodes :: "State \<Rightarrow> State \<Rightarrow> (log_event list \<times> State) option" where
  "SetOrderState_nodes order_state s =
     (if nodeStates order_state \<noteq> [] then
        (if lastNodeSequenceId order_state \<noteq> lastNodeSequenceId s then
           remove_old_nodes order_state s
         else
           (case nodeStates s of
              [] \<Rightarrow> None
            | n # _ \<Rightarrow>
                if ns_sequenceId n \<noteq> ns_sequenceId (hd (nodeStates order_state)) then
                  remove_old_nodes order_state s
                else Some ([], s)))
      else
        Some ([], s\<lparr>lastNodeId := lastNodeId order_state,
                     lastNodeSequenceId := lastNodeSequenceId order_state,
                     nodeStates := []\<rparr>))"

text \<open>Lines 454 to 469. Every read of a head is guarded by a test for emptiness.\<close>

definition SetOrderState_edges :: "State \<Rightarrow> State \<Rightarrow> log_event list \<times> State" where
  "SetOrderState_edges order_state s =
     (if edgeStates s \<noteq> [] then
        (if edgeStates order_state \<noteq> [] then
           (if es_sequenceId (hd (edgeStates s)) \<noteq> es_sequenceId (hd (edgeStates order_state)) then
              (let it = find_if (\<lambda>es. es_sequenceId es = es_sequenceId (hd (edgeStates order_state)))
                          (edgeStates s) in
               if it \<noteq> length (edgeStates s) then
                 ([], s\<lparr>edgeStates := drop it (edgeStates s)\<rparr>)
               else ([LastEdgeNotFound], s))
            else ([], s))
         else ([], s\<lparr>edgeStates := []\<rparr>))
      else ([], s))"

text \<open>Lines 470 and 471: one call of \<open>SetActionState\<close> per reported action state, in order.\<close>

fun SetOrderState_actions :: "ActionState list \<Rightarrow> State \<Rightarrow> log_event list \<times> State" where
  "SetOrderState_actions [] s = ([], s)"
| "SetOrderState_actions (a # rest) s =
     (let (l1, s1) = SetActionState a s;
          (l2, s2) = SetOrderState_actions rest s1
      in (l1 @ l2, s2))"

definition SetOrderState :: "State \<Rightarrow> State \<Rightarrow> (log_event list \<times> State) option" where
  "SetOrderState order_state s =
     (if orderId s \<noteq> orderId order_state then
        Some ([OrderIdMismatch (orderId order_state) (orderId s)], s)
      else
        (case SetOrderState_nodes order_state s of
           None \<Rightarrow> None
         | Some (l1, s1) \<Rightarrow>
             (let (l2, s2) = SetOrderState_edges order_state s1;
                  (l3, s3) = SetOrderState_actions (actionStates order_state) s2
              in Some (l1 @ l2 @ l3, s3))))"

section \<open>Operations declared in the headers only\<close>

text \<open>
  \<open>State.h\<close> and \<open>Order.h\<close> declare the following methods; their bodies
  (\<open>State.cpp\<close>, \<open>Order.cpp\<close>) are not among the sources. Each is modelled from
  the specification.
\<close>

subsection \<open>The error ledger\<close>

text \<open>
  Modelled from the spec: the body of \<open>State::ClearErrorWithType\<close>, which is missing.
  "Removes errors from the errors list based on their error type."
\<close>

definition ClearErrorWithType :: "string \<Rightarrow> State \<Rightarrow> State" where
  "ClearErrorWithType error_type s =
     s\<lparr> errors := filter (\<lambda>e. er_errorType e \<noteq> error_type) (errors s) \<rparr>"

text \<open>
  Modelled from the spec: the body of \<open>State::AppendError\<close>, which is missing.
  "Append replaces any existing entry of the same type (last-write-wins, not a
  multiset)"; the header adds "if an error type already exists, it is replaced with the
  provided error". The entries of the error's type are cleared and the error is pushed
  to the back.
\<close>

definition AppendError :: "Error \<Rightarrow> State \<Rightarrow> State" where
  "AppendError error s =
     (let s' = ClearErrorWithType (er_errorType error) s
      in s'\<lparr> errors := errors s' @ [error] \<rparr>)"

subsection \<open>Order updates in the execution state\<close>

text \<open>
  Modelled from the spec: the status a fresh action state gets, which the missing body of
  \<open>State::ActionToActionState\<close> sets. "Each node/edge/action state initialized to its
  default not-yet-started status"; in VDA 5050 that status is \<open>WAITING\<close>.
\<close>

definition not_started :: string where
  "not_started = ''WAITING''"

text \<open>
  Modelled from the spec: the body of \<open>State::NodeToNodeState\<close>, which is missing.
  A fresh node state, "\<open>released\<close> copied from the corresponding Order element".
\<close>

definition NodeToNodeState :: "Node \<Rightarrow> NodeState" where
  "NodeToNodeState n =
     \<lparr> ns_nodeId = n_nodeId n, ns_sequenceId = n_sequenceId n, ns_released = n_released n \<rparr>"

text \<open>
  Modelled from the spec: the body of \<open>State::EdgeToEdgeState\<close>, which is missing.
  A fresh edge state, "\<open>released\<close> copied from the corresponding Order element".
\<close>

definition EdgeToEdgeState :: "Edge \<Rightarrow> EdgeState" where
  "EdgeToEdgeState e =
     \<lparr> es_edgeId = e_edgeId e, es_sequenceId = e_sequenceId e, es_released = e_released e \<rparr>"

text \<open>
  Modelled from the spec: the body of \<open>State::ActionToActionState\<close>, which is missing.
  A fresh action state, not yet started and without a result.
\<close>

definition ActionToActionState :: "Action \<Rightarrow> ActionState" where
  "ActionToActionState a =
     \<lparr> as_actionId = a_actionId a, as_actionType = a_actionType a,
       as_actionDescription = a_actionDescription a,
       as_actionStatus = not_started, as_resultDescription = [] \<rparr>"

text \<open>
  Modelled from the spec: the actions an order carries, which the missing bodies read.
  "Actions attached to nodes/edges": those of the nodes, then those of the edges.
\<close>

definition order_actions :: "Node list \<Rightarrow> Edge list \<Rightarrow> Action list" where
  "order_actions ns es = concat (map n_actions ns) @ concat (map e_actions es)"

text \<open>
  Modelled from the spec: the body of \<open>State::ValidateUpdateBase\<close>, which is missing.
  "The first node of \<open>orderUpdate\<close> must equal (\<open>nodeId\<close> and \<open>sequenceId\<close>) the current
  \<open>lastNodeId\<close>/\<open>lastNodeSequenceId\<close>. Mismatch is a hard rejection of the whole update",
  a ContinuityError. An update without nodes has no first node and is rejected too. The
  check does not write to the state.
\<close>

definition ValidateUpdateBase :: "Order \<Rightarrow> State \<Rightarrow> order_error option \<times> State" where
  "ValidateUpdateBase order_update s =
     (case o_nodes order_update of
        [] \<Rightarrow> (Some ContinuityError, s)
      | n # _ \<Rightarrow>
          if n_nodeId n = lastNodeId s \<and> n_sequenceId n = lastNodeSequenceId s then (None, s)
          else (Some ContinuityError, s))"

text \<open>
  Modelled from the spec: the "unreleased (horizon) action states" of the missing body of
  \<open>State::UpdateOrder\<close>. An action state has no \<open>released\<close> field of its own: it is in
  the horizon when the current order attaches its action to an unreleased node or edge.
\<close>

definition horizon_action_ids :: "Order \<Rightarrow> string list" where
  "horizon_action_ids current_order =
     map a_actionId
       (order_actions (filter (\<lambda>n. \<not> n_released n) (o_nodes current_order))
                      (filter (\<lambda>e. \<not> e_released e) (o_edges current_order)))"

text \<open>
  Modelled from the spec: the "new nodes/edges/actions" of an update, which the missing
  body of \<open>State::UpdateOrder\<close> selects. Node and edge states are "sequence-id-keyed" and
  action states "keyed by \<open>actionId\<close>", every key occurring once: an element of the update
  is new when no state that is kept carries its key.
\<close>

definition update_new_nodes :: "NodeState list \<Rightarrow> Node list \<Rightarrow> Node list" where
  "update_new_nodes kept ns = filter (\<lambda>n. n_sequenceId n \<notin> set (map ns_sequenceId kept)) ns"

definition update_new_edges :: "EdgeState list \<Rightarrow> Edge list \<Rightarrow> Edge list" where
  "update_new_edges kept es = filter (\<lambda>e. e_sequenceId e \<notin> set (map es_sequenceId kept)) es"

definition update_new_actions :: "ActionState list \<Rightarrow> Action list \<Rightarrow> Action list" where
  "update_new_actions kept acts = filter (\<lambda>a. a_actionId a \<notin> set (map as_actionId kept)) acts"

text \<open>
  Modelled from the spec: the base entries, which the missing body of
  \<open>State::UpdateOrder\<close> keeps: the released node states, the released edge states and
  the action states outside the horizon.
\<close>

definition base_nodes :: "State \<Rightarrow> NodeState list" where
  "base_nodes s = filter ns_released (nodeStates s)"

definition base_edges :: "State \<Rightarrow> EdgeState list" where
  "base_edges s = filter es_released (edgeStates s)"

definition base_actions :: "Order \<Rightarrow> State \<Rightarrow> ActionState list" where
  "base_actions current_order s =
     filter (\<lambda>a. as_actionId a \<notin> set (horizon_action_ids current_order)) (actionStates s)"

text \<open>
  Modelled from the spec: the body of \<open>State::UpdateOrder\<close>, which is missing.
  "Discards all unreleased (horizon) node/edge/action states and appends fresh state
  entries derived from \<open>orderUpdate\<close>'s new nodes/edges/actions, preserving all released
  (base) state entries untouched." In the specification's scenario the update
  \<open>[n1, n2]\<close> on the node states \<open>[n1]\<close> (unreleased) gives \<open>[n1, n2]\<close>.
\<close>

definition UpdateOrder :: "Order \<Rightarrow> Order \<Rightarrow> State \<Rightarrow> State" where
  "UpdateOrder current_order order_update s =
     s\<lparr> nodeStates := base_nodes s
          @ map NodeToNodeState (update_new_nodes (base_nodes s) (o_nodes order_update)),
        edgeStates := base_edges s
          @ map EdgeToEdgeState (update_new_edges (base_edges s) (o_edges order_update)),
        actionStates := base_actions current_order s
          @ map ActionToActionState
              (update_new_actions (base_actions current_order s)
                 (order_actions (o_nodes order_update) (o_edges order_update))) \<rparr>"

text \<open>
  Modelled from the spec: the caller's sequence, which is missing. "\<open>UpdateOrder\<close>: after
  \<open>ValidateUpdateBase\<close> succeeds"; "\<open>UpdateOrder\<close> is rejected (no mutation) when the
  update's first node does not equal the current \<open>lastNodeId\<close>/\<open>lastNodeSequenceId\<close>".
\<close>

definition ValidatedUpdateOrder :: "Order \<Rightarrow> Order \<Rightarrow> State \<Rightarrow> order_error option \<times> State" where
  "ValidatedUpdateOrder current_order order_update s =
     (case ValidateUpdateBase order_update s of
        (Some err, s') \<Rightarrow> (Some err, s')
      | (None, s') \<Rightarrow> (None, UpdateOrder current_order order_update s'))"

subsection \<open>Order updates in the order\<close>







section \<open>Example inputs\<close>

definition act :: "string \<Rightarrow> string \<Rightarrow> ActionState" where
  "act aid status = \<lparr> as_actionId = aid, as_actionType = ''pick'', as_actionDescription = [],
     as_actionStatus = status, as_resultDescription = [] \<rparr>"

definition nstate :: "string \<Rightarrow> uint32 \<Rightarrow> bool \<Rightarrow> NodeState" where
  "nstate nid sq rel = \<lparr> ns_nodeId = nid, ns_sequenceId = sq, ns_released = rel \<rparr>"

definition estate :: "string \<Rightarrow> uint32 \<Rightarrow> bool \<Rightarrow> EdgeState" where
  "estate eid sq rel = \<lparr> es_edgeId = eid, es_sequenceId = sq, es_released = rel \<rparr>"

text \<open>
  A vehicle on order \<open>O1\<close> that has left node \<open>n0\<close> (sequence id 0) and still has node
  \<open>n1\<close>, two edges and one waiting action ahead.
\<close>

definition running_state :: State where
  "running_state = default_msg\<lparr> orderId := ''O1'', lastNodeId := ''n0'', lastNodeSequenceId := 0,
     nodeStates := [nstate ''n1'' 2 True],
     edgeStates := [estate ''e0'' 1 True, estate ''e1'' 3 True],
     actionStates := [act ''a1'' ''WAITING'', act ''a2'' ''WAITING''] \<rparr>"

text \<open>A report for \<open>O1\<close> that jumps to node \<open>n2\<close> (sequence id 4), which the state does not hold.\<close>

definition jumping_report :: State where
  "jumping_report = default_msg\<lparr> orderId := ''O1'', lastNodeId := ''n2'', lastNodeSequenceId := 4,
     nodeStates := [nstate ''n3'' 6 True],
     edgeStates := [estate ''e1'' 3 True],
     actionStates := [act ''a1'' ''FINISHED''] \<rparr>"

text \<open>A report for another order.\<close>

definition foreign_report :: State where
  "foreign_report = jumping_report\<lparr> orderId := ''O2'' \<rparr>"

text \<open>
  The same vehicle with three nodes ahead; the node \<open>n2\<close> named by \<open>jumping_report\<close>
  is the second of them.
\<close>

definition long_state :: State where
  "long_state = running_state\<lparr> nodeStates :=
     [nstate ''n1'' 2 True, nstate ''n2'' 4 True, nstate ''n3'' 6 True] \<rparr>"

definition node :: "string \<Rightarrow> uint32 \<Rightarrow> bool \<Rightarrow> Action list \<Rightarrow> Node" where
  "node nid sq rel acts =
     \<lparr> n_nodeId = nid, n_sequenceId = sq, n_released = rel, n_actions = acts \<rparr>"

definition edge :: "string \<Rightarrow> uint32 \<Rightarrow> bool \<Rightarrow> string \<Rightarrow> string \<Rightarrow> Edge" where
  "edge eid sq rel a b =
     \<lparr> e_edgeId = eid, e_sequenceId = sq, e_released = rel,
       e_startNodeId = a, e_endNodeId = b, e_actions = [] \<rparr>"

definition action :: "string \<Rightarrow> Action" where
  "action aid = \<lparr> a_actionId = aid, a_actionType = ''pick'', a_actionDescription = [] \<rparr>"

text \<open>
  Order \<open>O1\<close> at update id 1: \<open>n0\<close>, \<open>n1\<close> released, \<open>n9\<close> (with action \<open>a8\<close>) in the
  horizon.
\<close>

definition order_O1 :: Order where
  "order_O1 = \<lparr> o_orderId = ''O1'', o_orderUpdateId = 1, o_zoneSetId = [],
     o_nodes = [node ''n0'' 0 True [], node ''n1'' 2 True [action ''a1''],
                node ''n9'' 4 False [action ''a8'']],
     o_edges = [edge ''e0'' 1 True ''n0'' ''n1'', edge ''e9'' 3 False ''n1'' ''n9''] \<rparr>"

text \<open>Update 2 of \<open>O1\<close>, starting at \<open>n9\<close>, and the same message with the stale id 1.\<close>

definition update_2 :: Order where
  "update_2 = \<lparr> o_orderId = ''O1'', o_orderUpdateId = 2, o_zoneSetId = [],
     o_nodes = [node ''n9'' 4 True [action ''a9''], node ''n2'' 6 False [action ''a3'']],
     o_edges = [edge ''e1'' 5 False ''n9'' ''n2''] \<rparr>"


text \<open>
  A report for \<open>O1\<close> saying that node \<open>n1\<close> (sequence id 2) has been reached, with
  \<open>n2\<close> ahead and nothing else.
\<close>

definition bare_arrival_report :: State where
  "bare_arrival_report = default_msg\<lparr> orderId := ''O1'', lastNodeId := ''n1'',
     lastNodeSequenceId := 2, nodeStates := [nstate ''n2'' 4 True] \<rparr>"





text \<open>
  A state right after an order with the nodes \<open>n0\<close>, \<open>n1\<close>, \<open>n2\<close> was accepted:
  \<open>lastNodeSequenceId\<close> is 0 and the node \<open>n0\<close> with sequence id 0 is still listed.
\<close>

definition fresh_state :: State where
  "fresh_state = default_msg\<lparr> orderId := ''O1'', lastNodeId := ''n0'', lastNodeSequenceId := 0,
     nodeStates := [nstate ''n0'' 0 True, nstate ''n1'' 2 True, nstate ''n2'' 4 True] \<rparr>"

definition battery_low :: Error where
  "battery_low = \<lparr> er_errorType = ''battery'', er_errorDescription = ''low'',
     er_errorLevel = ''WARNING'' \<rparr>"

definition battery_critical :: Error where
  "battery_critical = \<lparr> er_errorType = ''battery'', er_errorDescription = ''critical'',
     er_errorLevel = ''FATAL'' \<rparr>"

section \<open>The trimming rule in the specification's words\<close>

text \<open>
  "Trims \<open>nodeStates\<close> from the front up to and including the new boundary node": the
  entries before the first one that carries the boundary's sequence id go, and so does
  that entry. This definition follows the specification, not the code; the theorems
  compare the code with it.
\<close>

definition trim_through_boundary :: "uint32 \<Rightarrow> NodeState list \<Rightarrow> NodeState list" where
  "trim_through_boundary sq ns = drop (Suc (find_if (\<lambda>n. ns_sequenceId n = sq) ns)) ns"

section \<open>Properties\<close>

subsection \<open>Facts about \<open>find_if\<close>\<close>

lemma find_if_le_length: "find_if p vs \<le> length vs"
  by (induction vs) auto

lemma find_if_end_iff: "find_if p vs = length vs \<longleftrightarrow> (\<forall>v \<in> set vs. \<not> p v)"
proof (induction vs)
  case Nil
  show ?case by simp
next
  case (Cons v vs)
  have "find_if p vs \<le> length vs" by (rule find_if_le_length)
  with Cons show ?case by auto
qed

lemma find_if_first:
  assumes "i < length vs" and "p (vs ! i)" and "\<forall>j<i. \<not> p (vs ! j)"
  shows "find_if p vs = i"
  using assms
proof (induction vs arbitrary: i)
  case Nil
  then show ?case by simp
next
  case (Cons v vs)
  show ?case
  proof (cases i)
    case 0
    with Cons.prems show ?thesis by simp
  next
    case (Suc k)
    from Cons.prems Suc have "\<not> p v" by auto
    moreover have "find_if p vs = k"
    proof (rule Cons.IH)
      show "k < length vs" using Cons.prems Suc by simp
      show "p (vs ! k)" using Cons.prems Suc by simp
      show "\<forall>j<k. \<not> p (vs ! j)"
      proof (intro allI impI)
        fix j assume "j < k"
        then have "Suc j < i" using Suc by simp
        with Cons.prems have "\<not> p ((v # vs) ! Suc j)" by blast
        then show "\<not> p (vs ! j)" by simp
      qed
    qed
    ultimately show ?thesis using Suc by simp
  qed
qed

lemma find_if_found:
  assumes "find_if p vs \<noteq> length vs"
  shows "find_if p vs < length vs \<and> p (vs ! find_if p vs)
         \<and> (\<forall>j < find_if p vs. \<not> p (vs ! j))"
  using assms
proof (induction vs)
  case Nil
  then show ?case by simp
next
  case (Cons v vs)
  show ?case
  proof (cases "p v")
    case True
    then show ?thesis by simp
  next
    case False
    with Cons have ih: "find_if p vs < length vs \<and> p (vs ! find_if p vs)
         \<and> (\<forall>j < find_if p vs. \<not> p (vs ! j))" by simp
    have "\<forall>j < Suc (find_if p vs). \<not> p ((v # vs) ! j)"
    proof (intro allI impI)
      fix j assume "j < Suc (find_if p vs)"
      then show "\<not> p ((v # vs) ! j)" using False ih by (cases j) auto
    qed
    with False ih show ?thesis by simp
  qed
qed

subsection \<open>Updating one action state\<close>

text \<open>
  C7. \<open>SetActionState\<close>, in both overloads: when some entry of \<open>actionStates\<close> carries
  the given action id, the first such entry (the only one when ids are unique) gets the
  given status and result description, keeps its other fields, and every other entry
  keeps everything; nothing is logged. When no entry carries the id, the state is
  returned as it was and the missing id is written to the error log. The message
  overload behaves as the three-string overload on the message's fields.
\<close>

theorem SetActionState_updates_match_or_reports:
  "(i < length (actionStates s) \<and> as_actionId (actionStates s ! i) = aid
      \<and> (\<forall>j<i. as_actionId (actionStates s ! j) \<noteq> aid)
    \<longrightarrow> SetActionStateById aid st rd s =
         ([], s\<lparr>actionStates := (actionStates s)[i := (actionStates s ! i)
               \<lparr>as_actionStatus := st, as_resultDescription := rd\<rparr>]\<rparr>))
   \<and> ((\<forall>a \<in> set (actionStates s). as_actionId a \<noteq> aid)
    \<longrightarrow> SetActionStateById aid st rd s = ([ActionStateNotFound aid], s))
   \<and> SetActionState u s =
       SetActionStateById (as_actionId u) (as_actionStatus u) (as_resultDescription u) s"
proof (intro conjI impI)
  assume h: "i < length (actionStates s) \<and> as_actionId (actionStates s ! i) = aid
      \<and> (\<forall>j<i. as_actionId (actionStates s ! j) \<noteq> aid)"
  have "find_if (\<lambda>a. aid = as_actionId a) (actionStates s) = i"
  proof (rule find_if_first)
    show "i < length (actionStates s)" using h by simp
    show "aid = as_actionId (actionStates s ! i)" using h by simp
    show "\<forall>j<i. \<not> aid = as_actionId (actionStates s ! j)" using h by auto
  qed
  then show "SetActionStateById aid st rd s =
         ([], s\<lparr>actionStates := (actionStates s)[i := (actionStates s ! i)
               \<lparr>as_actionStatus := st, as_resultDescription := rd\<rparr>]\<rparr>)"
    using h by (simp add: SetActionStateById_def)
next
  assume "\<forall>a \<in> set (actionStates s). as_actionId a \<noteq> aid"
  then have "find_if (\<lambda>a. aid = as_actionId a) (actionStates s) = length (actionStates s)"
    by (auto simp: find_if_end_iff)
  then show "SetActionStateById aid st rd s = ([ActionStateNotFound aid], s)"
    by (simp add: SetActionStateById_def)
next
  show "SetActionState u s =
       SetActionStateById (as_actionId u) (as_actionStatus u) (as_resultDescription u) s"
    by (simp add: SetActionState_def SetActionStateById_def)
qed

theorem SetActionState_updates_match_or_reports_witness:
  "SetActionStateById ''a2'' ''FINISHED'' ''done'' running_state =
     ([], running_state\<lparr>actionStates := [act ''a1'' ''WAITING'',
        (act ''a2'' ''WAITING'')\<lparr>as_actionStatus := ''FINISHED'', as_resultDescription := ''done''\<rparr>]\<rparr>)
   \<and> SetActionStateById ''a9'' ''FINISHED'' ''done'' running_state =
     ([ActionStateNotFound ''a9''], running_state)"
proof -
  have a: "actionStates running_state = [act ''a1'' ''WAITING'', act ''a2'' ''WAITING'']"
    by (simp add: running_state_def)
  have found: "1 < length (actionStates running_state)
      \<and> as_actionId (actionStates running_state ! 1) = ''a2''
      \<and> (\<forall>j<1. as_actionId (actionStates running_state ! j) \<noteq> ''a2'')"
    by (simp add: a act_def)
  have missing: "\<forall>a \<in> set (actionStates running_state). as_actionId a \<noteq> ''a9''"
    by (simp add: a act_def)
  from SetActionState_updates_match_or_reports [of 1 running_state "''a2''" "''FINISHED''" "''done''"] found
  have 1: "SetActionStateById ''a2'' ''FINISHED'' ''done'' running_state =
     ([], running_state\<lparr>actionStates := (actionStates running_state)[1 := (actionStates running_state ! 1)
        \<lparr>as_actionStatus := ''FINISHED'', as_resultDescription := ''done''\<rparr>]\<rparr>)"
    by blast
  from SetActionState_updates_match_or_reports [of 0 running_state "''a9''" "''FINISHED''" "''done''"] missing
  have 2: "SetActionStateById ''a9'' ''FINISHED'' ''done'' running_state =
     ([ActionStateNotFound ''a9''], running_state)"
    by blast
  from 1 2 show ?thesis by (simp add: a)
qed

subsection \<open>The chained range guards\<close>

text \<open>
  C9. The guards \<open>0.0 <= battery_charge <= 100.0\<close> of \<open>SetBatteryCharge\<close> and
  \<open>0.0 <= score <= 1.0\<close> of \<open>SetLocalizationScore\<close> hold for every \<open>double\<close>, a NaN, an
  infinity and a value outside the documented range included: each setter stores its
  argument and returns \<open>true\<close>, and the branch returning \<open>false\<close> is never taken.
\<close>

theorem range_guards_always_true:
  "SetBatteryCharge battery_charge s =
     (True, s\<lparr>batteryState := (batteryState s)\<lparr>batteryCharge := battery_charge\<rparr>\<rparr>)
   \<and> SetLocalizationScore score s =
     (True, s\<lparr>agvPosition := (agvPosition s)\<lparr>localizationScore := score\<rparr>\<rparr>)"
  by (simp add: SetBatteryCharge_def SetLocalizationScore_def bool_to_double_def)

theorem range_guards_always_true_witness:
  "fst (SetBatteryCharge (Finite 250) default_msg)
   \<and> batteryCharge (batteryState (snd (SetBatteryCharge (Finite 250) default_msg))) = Finite 250
   \<and> fst (SetLocalizationScore NaN default_msg)
   \<and> localizationScore (agvPosition (snd (SetLocalizationScore NaN default_msg))) = NaN"
  using range_guards_always_true [of "Finite 250" default_msg NaN] by simp

subsection \<open>Interaction zones\<close>

text \<open>
  C10. \<open>SetInteractionZones\<close> leaves the state as it was, whatever zones it is given:
  the forced zone statuses live in the local copy only, which is never stored.
\<close>

theorem SetInteractionZones_no_effect:
  "SetInteractionZones interaction_zones s = s"
  by (simp add: SetInteractionZones_def)

theorem SetInteractionZones_no_effect_witness:
  "SetInteractionZones \<lparr>interactionZones = [\<lparr>iz_zoneId = ''z1'', iz_zoneStatus = 7\<rparr>]\<rparr> running_state
     = running_state"
  using SetInteractionZones_no_effect [of "\<lparr>interactionZones = [\<lparr>iz_zoneId = ''z1'', iz_zoneStatus = 7\<rparr>]\<rparr>" running_state]
  by simp

subsection \<open>Frame of the edge and action blocks\<close>

lemma SetActionState_frame:
  "nodeStates (snd (SetActionState a s)) = nodeStates s
   \<and> edgeStates (snd (SetActionState a s)) = edgeStates s
   \<and> lastNodeId (snd (SetActionState a s)) = lastNodeId s
   \<and> lastNodeSequenceId (snd (SetActionState a s)) = lastNodeSequenceId s"
  by (simp add: SetActionState_def Let_def)

lemma SetOrderState_actions_frame:
  "nodeStates (snd (SetOrderState_actions acts s)) = nodeStates s
   \<and> edgeStates (snd (SetOrderState_actions acts s)) = edgeStates s
   \<and> lastNodeId (snd (SetOrderState_actions acts s)) = lastNodeId s
   \<and> lastNodeSequenceId (snd (SetOrderState_actions acts s)) = lastNodeSequenceId s"
proof (induction acts arbitrary: s)
  case Nil
  show ?case by simp
next
  case (Cons a acts)
  obtain l1 s1 where 1: "SetActionState a s = (l1, s1)"
    by (cases "SetActionState a s")
  obtain l2 s2 where 2: "SetOrderState_actions acts s1 = (l2, s2)"
    by (cases "SetOrderState_actions acts s1")
  from SetActionState_frame [of a s] 1
  have f1: "nodeStates s1 = nodeStates s \<and> edgeStates s1 = edgeStates s
      \<and> lastNodeId s1 = lastNodeId s \<and> lastNodeSequenceId s1 = lastNodeSequenceId s"
    by simp
  from Cons.IH [of s1] 2
  have f2: "nodeStates s2 = nodeStates s1 \<and> edgeStates s2 = edgeStates s1
      \<and> lastNodeId s2 = lastNodeId s1 \<and> lastNodeSequenceId s2 = lastNodeSequenceId s1"
    by simp
  from 1 2 f1 f2 show ?case by simp
qed

lemma SetOrderState_edges_frame:
  "nodeStates (snd (SetOrderState_edges r s)) = nodeStates s
   \<and> actionStates (snd (SetOrderState_edges r s)) = actionStates s
   \<and> lastNodeId (snd (SetOrderState_edges r s)) = lastNodeId s
   \<and> lastNodeSequenceId (snd (SetOrderState_edges r s)) = lastNodeSequenceId s"
  by (simp add: SetOrderState_edges_def Let_def)

text \<open>Once the node block has returned, the edge and action blocks always run.\<close>

lemma SetOrderState_after_nodes:
  assumes "orderId s = orderId order_state"
    and "SetOrderState_nodes order_state s = Some (l1, s1)"
  shows "SetOrderState order_state s =
     Some (l1 @ fst (SetOrderState_edges order_state s1)
              @ fst (SetOrderState_actions (actionStates order_state)
                       (snd (SetOrderState_edges order_state s1))),
           snd (SetOrderState_actions (actionStates order_state)
                  (snd (SetOrderState_edges order_state s1))))"
  using assms by (simp add: SetOrderState_def split_beta Let_def)

lemma SetOrderState_jumping_report:
  "SetOrderState jumping_report running_state =
     Some ([LastNodeNotFound],
           running_state\<lparr>edgeStates := [estate ''e1'' 3 True],
             actionStates := [act ''a1'' ''FINISHED'', act ''a2'' ''WAITING'']\<rparr>)"
  by (simp add: SetOrderState_def SetOrderState_nodes_def remove_old_nodes_def
      SetOrderState_edges_def SetActionState_def jumping_report_def running_state_def
      default_msg_def nstate_def estate_def act_def)

text \<open>
  The call is undefined in exactly one situation: the order ids agree, the report lists
  node states and the state lists none, so that line 429 or line 430 reads the head of an
  empty vector. Everywhere else it returns.
\<close>

lemma SetOrderState_undefined_iff:
  "SetOrderState order_state s = None \<longleftrightarrow>
     orderId s = orderId order_state \<and> nodeStates order_state \<noteq> [] \<and> nodeStates s = []"
  by (auto simp add: SetOrderState_def SetOrderState_nodes_def remove_old_nodes_def Let_def
      split_beta split: list.splits option.splits if_splits)

subsection \<open>A report for another order\<close>

text \<open>
  C5. When the reported state names another order than the active one, \<open>SetOrderState\<close>
  logs the mismatch and returns the state as it was: node, edge and action states,
  \<open>lastNodeId\<close> and \<open>lastNodeSequenceId\<close> included, and nothing of the report is merged.
\<close>

theorem SetOrderState_other_order_rejected:
  "orderId order_state \<noteq> orderId s \<Longrightarrow>
   SetOrderState order_state s = Some ([OrderIdMismatch (orderId order_state) (orderId s)], s)"
  by (auto simp add: SetOrderState_def)

theorem SetOrderState_other_order_rejected_witness:
  "orderId foreign_report = ''O2'' \<and> orderId running_state = ''O1''
   \<and> SetOrderState foreign_report running_state
       = Some ([OrderIdMismatch ''O2'' ''O1''], running_state)"
proof -
  have h: "orderId foreign_report \<noteq> orderId running_state"
    by (simp add: foreign_report_def jumping_report_def running_state_def)
  from SetOrderState_other_order_rejected [OF h] show ?thesis
    by (simp add: foreign_report_def jumping_report_def running_state_def)
qed

subsection \<open>The boundary node is not found\<close>

text \<open>
  C3, as the claim states it, fails: on \<open>running_state\<close> and \<open>jumping_report\<close> the order
  ids agree, the reported \<open>lastNodeSequenceId\<close> 4 differs from the current 0, and the only
  current node state carries sequence id 2, so no boundary node is found; yet the edge
  \<open>e0\<close> is trimmed and the reported status of action \<open>a1\<close> is merged.
\<close>

theorem SetOrderState_missing_boundary_counterexample:
  "orderId running_state = orderId jumping_report
   \<and> nodeStates jumping_report \<noteq> []
   \<and> lastNodeSequenceId jumping_report = 4
   \<and> lastNodeSequenceId running_state = 0
   \<and> map ns_sequenceId (nodeStates running_state) = [2]
   \<and> SetOrderState jumping_report running_state =
       Some ([LastNodeNotFound],
             running_state\<lparr>edgeStates := [estate ''e1'' 3 True],
               actionStates := [act ''a1'' ''FINISHED'', act ''a2'' ''WAITING'']\<rparr>)
   \<and> edgeStates running_state \<noteq> [estate ''e1'' 3 True]
   \<and> actionStates running_state \<noteq> [act ''a1'' ''FINISHED'', act ''a2'' ''WAITING'']"
proof -
  have "SetOrderState jumping_report running_state =
       Some ([LastNodeNotFound],
             running_state\<lparr>edgeStates := [estate ''e1'' 3 True],
               actionStates := [act ''a1'' ''FINISHED'', act ''a2'' ''WAITING'']\<rparr>)"
    by (rule SetOrderState_jumping_report)
  then show ?thesis
    by (simp add: jumping_report_def running_state_def nstate_def estate_def act_def)
qed

text \<open>
  C3, amended. When the order ids agree, the reported and the current \<open>nodeStates\<close> are
  both non-empty, node progress has advanced and no current node state carries the
  reported \<open>lastNodeSequenceId\<close> (the expected boundary), nor the \<open>lastNodeSequenceId\<close>
  the state holds, then \<open>SetOrderState\<close> logs that the last node was not found and leaves
  the node part of the state as it was: no node state is removed and \<open>lastNodeId\<close> and
  \<open>lastNodeSequenceId\<close> are unchanged. The call goes on: the edge states are trimmed and
  the reported action states merged as in any other call, starting from the unchanged
  state.
\<close>

theorem SetOrderState_missing_boundary_skips_node_block:
  assumes "orderId s = orderId order_state"
    and "nodeStates order_state \<noteq> []"
    and "nodeStates s \<noteq> []"
    and "lastNodeSequenceId order_state \<noteq> lastNodeSequenceId s
         \<or> ns_sequenceId (hd (nodeStates s)) \<noteq> ns_sequenceId (hd (nodeStates order_state))"
    and "\<forall>n \<in> set (nodeStates s).
           ns_sequenceId n \<noteq> lastNodeSequenceId order_state
           \<and> ns_sequenceId n \<noteq> lastNodeSequenceId s"
  shows "let e = SetOrderState_edges order_state s;
             a = SetOrderState_actions (actionStates order_state) (snd e)
         in SetOrderState order_state s = Some (LastNodeNotFound # fst e @ fst a, snd a)
            \<and> nodeStates (snd a) = nodeStates s
            \<and> lastNodeId (snd a) = lastNodeId s
            \<and> lastNodeSequenceId (snd a) = lastNodeSequenceId s"
proof -
  obtain n rest where ns: "nodeStates s = n # rest"
    using assms(3) by (cases "nodeStates s") auto
  have hd: "ns_sequenceId n \<noteq> lastNodeSequenceId order_state"
    using assms(5) ns by simp
  have nf: "find_if (\<lambda>ns. ns_sequenceId ns = lastNodeSequenceId s) (nodeStates s)
              = length (nodeStates s)"
    using assms(5) by (simp add: find_if_end_iff)
  have rm: "remove_old_nodes order_state s = Some ([LastNodeNotFound], s)"
    using hd nf ns by (simp add: remove_old_nodes_def)
  have nodes: "SetOrderState_nodes order_state s = Some ([LastNodeNotFound], s)"
    using assms(2,4) ns rm by (auto simp add: SetOrderState_nodes_def)
  show ?thesis
    using SetOrderState_after_nodes [OF assms(1) nodes]
      SetOrderState_edges_frame [of order_state s]
      SetOrderState_actions_frame [of "actionStates order_state"
        "snd (SetOrderState_edges order_state s)"]
    by (simp add: Let_def)
qed

theorem SetOrderState_missing_boundary_skips_node_block_witness:
  "\<exists>logs s'. SetOrderState jumping_report running_state = Some (LastNodeNotFound # logs, s')
     \<and> nodeStates s' = [nstate ''n1'' 2 True]
     \<and> lastNodeId s' = ''n0''
     \<and> lastNodeSequenceId s' = 0"
proof -
  have 1: "orderId running_state = orderId jumping_report"
    by (simp add: jumping_report_def running_state_def)
  have 2: "nodeStates jumping_report \<noteq> []"
    by (simp add: jumping_report_def)
  have 3: "nodeStates running_state \<noteq> []"
    by (simp add: running_state_def)
  have 4: "lastNodeSequenceId jumping_report \<noteq> lastNodeSequenceId running_state
         \<or> ns_sequenceId (hd (nodeStates running_state))
             \<noteq> ns_sequenceId (hd (nodeStates jumping_report))"
    by (simp add: jumping_report_def running_state_def)
  have 5: "\<forall>n \<in> set (nodeStates running_state).
             ns_sequenceId n \<noteq> lastNodeSequenceId jumping_report
             \<and> ns_sequenceId n \<noteq> lastNodeSequenceId running_state"
    by (simp add: running_state_def jumping_report_def nstate_def)
  have n: "nodeStates running_state = [nstate ''n1'' 2 True]
      \<and> lastNodeId running_state = ''n0'' \<and> lastNodeSequenceId running_state = 0"
    by (simp add: running_state_def)
  from SetOrderState_missing_boundary_skips_node_block [OF 1 2 3 4 5] n
  show ?thesis by (simp add: Let_def)
qed

subsection \<open>The boundary node is listed\<close>

text \<open>
  Where the head of the current \<open>nodeStates\<close> is the reported last node, lines 430 to
  433 remove every entry up to and including that boundary node, which is the head alone,
  and set \<open>lastNodeId\<close> and \<open>lastNodeSequenceId\<close> to the reported values.
\<close>

lemma SetOrderState_head_boundary_trimmed:
  assumes "orderId s = orderId order_state"
    and "nodeStates order_state \<noteq> []"
    and "nodeStates s \<noteq> []"
    and "lastNodeSequenceId order_state \<noteq> lastNodeSequenceId s
         \<or> ns_sequenceId (hd (nodeStates s)) \<noteq> ns_sequenceId (hd (nodeStates order_state))"
    and "ns_sequenceId (hd (nodeStates s)) = lastNodeSequenceId order_state"
  shows "\<exists>logs s'. SetOrderState order_state s = Some (logs, s')
            \<and> nodeStates s' = trim_through_boundary (lastNodeSequenceId order_state) (nodeStates s)
            \<and> nodeStates s' = tl (nodeStates s)
            \<and> lastNodeId s' = lastNodeId order_state
            \<and> lastNodeSequenceId s' = lastNodeSequenceId order_state"
proof -
  obtain n rest where ns: "nodeStates s = n # rest"
    using assms(3) by (cases "nodeStates s") auto
  let ?s1 = "s\<lparr>nodeStates := rest, lastNodeId := lastNodeId order_state,
                lastNodeSequenceId := lastNodeSequenceId order_state\<rparr>"
  have rm: "remove_old_nodes order_state s = Some ([], ?s1)"
    using assms(5) ns by (simp add: remove_old_nodes_def)
  have nodes: "SetOrderState_nodes order_state s = Some ([], ?s1)"
    using assms(2,4) ns rm by (auto simp add: SetOrderState_nodes_def)
  have trim: "trim_through_boundary (lastNodeSequenceId order_state) (nodeStates s) = rest"
    using assms(5) ns by (simp add: trim_through_boundary_def)
  show ?thesis
    using SetOrderState_after_nodes [OF assms(1) nodes]
      SetOrderState_edges_frame [of order_state ?s1]
      SetOrderState_actions_frame [of "actionStates order_state"
        "snd (SetOrderState_edges order_state ?s1)"]
      trim ns
    by simp
qed


text \<open>
  C4. Where the reported last node is listed behind the head, the code does not do what
  the claim says. On \<open>long_state\<close> (nodes with sequence ids 2, 4, 6 ahead, last node
  \<open>n0\<close> with sequence id 0) and \<open>jumping_report\<close> (last node \<open>n2\<close> with sequence id 4)
  the claim asks for the node states \<open>[n3]\<close> and the last node \<open>n2\<close>, 4; the search of
  line 437 looks for the old sequence id 0, so the call logs "last node not found", keeps
  all three node states and keeps the last node \<open>n0\<close>, 0. On \<open>fresh_state\<close> (sequence
  ids 0, 2, 4 listed, last sequence id 0) and \<open>bare_arrival_report\<close> (last node \<open>n1\<close>
  with sequence id 2) the claim asks for the node states \<open>[n2]\<close>; the search finds the
  old sequence id 0 at the head, \<open>erase(begin, it)\<close> removes nothing, and all three node
  states stay although the last node is now \<open>n1\<close>, 2.
\<close>

theorem SetOrderState_listed_boundary_not_trimmed:
  "orderId long_state = orderId jumping_report
   \<and> nodeStates jumping_report \<noteq> []
   \<and> lastNodeId long_state = ''n0'' \<and> lastNodeSequenceId long_state = 0
   \<and> lastNodeId jumping_report = ''n2'' \<and> lastNodeSequenceId jumping_report = 4
   \<and> nodeStates long_state = [nstate ''n1'' 2 True, nstate ''n2'' 4 True, nstate ''n3'' 6 True]
   \<and> trim_through_boundary (lastNodeSequenceId jumping_report) (nodeStates long_state)
       = [nstate ''n3'' 6 True]
   \<and> map_option (\<lambda>r. (fst r, nodeStates (snd r), lastNodeId (snd r), lastNodeSequenceId (snd r)))
        (SetOrderState jumping_report long_state)
       = Some ([LastNodeNotFound],
               [nstate ''n1'' 2 True, nstate ''n2'' 4 True, nstate ''n3'' 6 True], ''n0'', 0)
   \<and> orderId fresh_state = orderId bare_arrival_report
   \<and> nodeStates bare_arrival_report \<noteq> []
   \<and> lastNodeSequenceId fresh_state = 0
   \<and> lastNodeId bare_arrival_report = ''n1'' \<and> lastNodeSequenceId bare_arrival_report = 2
   \<and> nodeStates fresh_state = [nstate ''n0'' 0 True, nstate ''n1'' 2 True, nstate ''n2'' 4 True]
   \<and> trim_through_boundary (lastNodeSequenceId bare_arrival_report) (nodeStates fresh_state)
       = [nstate ''n2'' 4 True]
   \<and> map_option (\<lambda>r. (fst r, nodeStates (snd r), lastNodeId (snd r), lastNodeSequenceId (snd r)))
        (SetOrderState bare_arrival_report fresh_state)
       = Some ([],
               [nstate ''n0'' 0 True, nstate ''n1'' 2 True, nstate ''n2'' 4 True], ''n1'', 2)"
proof -
  have 1: "SetOrderState jumping_report long_state
      = Some ([LastNodeNotFound], long_state\<lparr>edgeStates := [estate ''e1'' 3 True],
             actionStates := [act ''a1'' ''FINISHED'', act ''a2'' ''WAITING'']\<rparr>)"
    by (simp add: SetOrderState_def SetOrderState_nodes_def remove_old_nodes_def
      SetOrderState_edges_def SetActionState_def jumping_report_def long_state_def
      running_state_def default_msg_def nstate_def estate_def act_def)
  have 2: "SetOrderState bare_arrival_report fresh_state
      = Some ([],
              fresh_state\<lparr>lastNodeId := ''n1'', lastNodeSequenceId := 2\<rparr>)"
    by (simp add: SetOrderState_def SetOrderState_nodes_def remove_old_nodes_def
      SetOrderState_edges_def bare_arrival_report_def fresh_state_def
      default_msg_def nstate_def)
  have 3: "trim_through_boundary (lastNodeSequenceId jumping_report) (nodeStates long_state)
       = [nstate ''n3'' 6 True]"
    by (simp add: trim_through_boundary_def jumping_report_def long_state_def nstate_def)
  have 4: "trim_through_boundary (lastNodeSequenceId bare_arrival_report) (nodeStates fresh_state)
       = [nstate ''n2'' 4 True]"
    by (simp add: trim_through_boundary_def bare_arrival_report_def fresh_state_def nstate_def)
  show ?thesis
    by (simp add: 1 2 3 4)
       (simp add: jumping_report_def long_state_def running_state_def bare_arrival_report_def
          fresh_state_def)
qed

subsection \<open>Rejected order updates\<close>

text \<open>
  C1. When the first node of an order update differs from the current
  \<open>lastNodeId\<close>/\<open>lastNodeSequenceId\<close> in its node id or in its sequence id,
  \<open>ValidateUpdateBase\<close> rejects the update with a ContinuityError, the update is not
  applied, and the state after the rejected update is the state before the call.
\<close>

theorem ValidateUpdateBase_rejects_other_base:
  assumes "o_nodes order_update = n # rest"
    and "n_nodeId n \<noteq> lastNodeId s \<or> n_sequenceId n \<noteq> lastNodeSequenceId s"
  shows "ValidateUpdateBase order_update s = (Some ContinuityError, s)
         \<and> ValidatedUpdateOrder current_order order_update s = (Some ContinuityError, s)"
  using assms by (auto simp add: ValidateUpdateBase_def ValidatedUpdateOrder_def)

theorem ValidateUpdateBase_rejects_other_base_witness:
  "n_nodeId (hd (o_nodes update_2)) = ''n9'' \<and> lastNodeId running_state = ''n0''
   \<and> ValidateUpdateBase update_2 running_state = (Some ContinuityError, running_state)
   \<and> ValidatedUpdateOrder order_O1 update_2 running_state = (Some ContinuityError, running_state)"
proof -
  have 1: "o_nodes update_2 = node ''n9'' 4 True [action ''a9''] # [node ''n2'' 6 False [action ''a3'']]"
    by (simp add: update_2_def)
  have 2: "n_nodeId (node ''n9'' 4 True [action ''a9'']) \<noteq> lastNodeId running_state
       \<or> n_sequenceId (node ''n9'' 4 True [action ''a9'']) \<noteq> lastNodeSequenceId running_state"
    by (simp add: node_def running_state_def)
  from ValidateUpdateBase_rejects_other_base [OF 1 2, of order_O1]
  show ?thesis by (simp add: update_2_def node_def running_state_def)
qed

subsection \<open>Applied order updates\<close>









subsection \<open>Stale order updates\<close>











subsection \<open>The error ledger\<close>

text \<open>
  C8. After two calls of \<open>AppendError\<close> with errors of the same type, the error list holds
  exactly one entry of that type, the error of the second call, whatever the list held
  before; the entries of other types are as they were.
\<close>

theorem AppendError_twice_last_wins:
  assumes "er_errorType e2 = er_errorType e1"
  shows "filter (\<lambda>e. er_errorType e = er_errorType e1)
           (errors (AppendError e2 (AppendError e1 s))) = [e2]
      \<and> filter (\<lambda>e. er_errorType e \<noteq> er_errorType e1)
           (errors (AppendError e2 (AppendError e1 s)))
          = filter (\<lambda>e. er_errorType e \<noteq> er_errorType e1) (errors s)"
  using assms by (simp add: AppendError_def ClearErrorWithType_def Let_def)

theorem AppendError_twice_last_wins_witness:
  "er_errorDescription battery_low \<noteq> er_errorDescription battery_critical
   \<and> errors (AppendError battery_critical (AppendError battery_low default_msg)) = [battery_critical]"
proof -
  have same: "er_errorType battery_critical = er_errorType battery_low"
    by (simp add: battery_critical_def battery_low_def)
  have d: "er_errorDescription battery_low \<noteq> er_errorDescription battery_critical"
    by (simp add: battery_critical_def battery_low_def)
  have all: "filter (\<lambda>e. er_errorType e = er_errorType battery_low)
           (errors (AppendError battery_critical (AppendError battery_low default_msg)))
      = errors (AppendError battery_critical (AppendError battery_low default_msg))"
    by (simp add: AppendError_def ClearErrorWithType_def Let_def default_msg_def
        battery_critical_def battery_low_def)
  from AppendError_twice_last_wins [OF same, of default_msg] all d
  show ?thesis by simp
qed

end
